theory Spec2Isabelle
  imports Complex_Main
begin

section \<open>JavaScript values\<close>

subsection \<open>Numbers: IEEE 754 binary64\<close>

text \<open>
  A JavaScript number is a binary64 value. \<open>Fin r\<close> is the finite value
      \<open>r\<close>
  (\<open>Fin 0\<close> is \<open>+0\<close>), \<open>NegZero\<close> is \<open>-0\<close>. All
      NaNs are one value, as they
  are for a JavaScript program.
\<close>

datatype jsnumber = NaN | PosInf | NegInf | NegZero | Fin rat

definition pow2 :: "int \<Rightarrow> rat" where
  "pow2 e = (if 0 \<le> e then 2 ^ nat e else 1 / 2 ^ nat (- e))"

function bit_length :: "int \<Rightarrow> int" where
  "bit_length n = (if n \<le> 0 then 0 else 1 + bit_length (n div 2))"
  by pat_completeness auto
termination
  by (relation "measure nat") auto

declare bit_length.simps [simp del]

text \<open>\<open>ilog2 m\<close> is the exponent \<open>e\<close> with \<open>2^e \<le> m <
    2^(e+1)\<close>, for \<open>m > 0\<close>.\<close>

definition ilog2 :: "rat \<Rightarrow> int" where
  "ilog2 m =
     (if 1 \<le> m then bit_length \<lfloor>m\<rfloor> - 1
      else (let j = bit_length \<lfloor>1 / m\<rfloor> - 1
            in if m = pow2 (- j) then - j else - j - 1))"

definition round_half_even :: "rat \<Rightarrow> int" where
  "round_half_even x =
     (let f = \<lfloor>x\<rfloor>; d = x - of_int f
      in if d < 1 / 2 then f
         else if 1 / 2 < d then f + 1
         else if even f then f else f + 1)"

text \<open>
  Rounding of an exact result to binary64, to nearest, ties to even: 53 significant
  bits, exponents from \<open>-1022\<close> (below which the spacing stays \<open>2^-1074\<close>,
      the
  subnormal range) to \<open>1023\<close> (above which the result is an infinity).
\<close>

definition round_double :: "rat \<Rightarrow> jsnumber" where
  "round_double q =
     (if q = 0 then Fin 0
      else
        let m = \<bar>q\<bar>;
            e = max (ilog2 m) (- 1022);
            ulp = pow2 (e - 52);
            r = of_int (round_half_even (m / ulp)) * ulp
        in if pow2 1024 \<le> r then (if q < 0 then NegInf else PosInf)
           else if r = 0 then (if q < 0 then NegZero else Fin 0)
           else Fin (if q < 0 then - r else r))"

text \<open>A decimal literal of the program text, such as \<open>0.1\<close>, is the nearest
    binary64.\<close>

definition literal :: "rat \<Rightarrow> jsnumber" where
  "literal q = round_double q"

fun fin_value :: "jsnumber \<Rightarrow> rat" where
  "fin_value (Fin r) = r"
| "fin_value _ = 0"

fun is_nan :: "jsnumber \<Rightarrow> bool" where
  "is_nan NaN = True"
| "is_nan _ = False"

fun is_inf :: "jsnumber \<Rightarrow> bool" where
  "is_inf PosInf = True"
| "is_inf NegInf = True"
| "is_inf _ = False"

fun is_zero :: "jsnumber \<Rightarrow> bool" where
  "is_zero NegZero = True"
| "is_zero (Fin r) = (r = 0)"
| "is_zero _ = False"

fun sign_bit :: "jsnumber \<Rightarrow> bool" where
  "sign_bit NegInf = True"
| "sign_bit NegZero = True"
| "sign_bit (Fin r) = (r < 0)"
| "sign_bit _ = False"

definition signed_inf :: "bool \<Rightarrow> jsnumber" where
  "signed_inf neg = (if neg then NegInf else PosInf)"

definition signed_zero :: "bool \<Rightarrow> jsnumber" where
  "signed_zero neg = (if neg then NegZero else Fin 0)"

text \<open>The operator \<open>/\<close> on numbers.\<close>

definition fdiv :: "jsnumber \<Rightarrow> jsnumber \<Rightarrow> jsnumber" where
  "fdiv a b =
     (if is_nan a \<or> is_nan b then NaN
      else if is_inf a then
        (if is_inf b then NaN else signed_inf (sign_bit a \<noteq> sign_bit b))
      else if is_inf b then signed_zero (sign_bit a \<noteq> sign_bit b)
      else if is_zero b then
        (if is_zero a then NaN else signed_inf (sign_bit a \<noteq> sign_bit b))
      else if is_zero a then signed_zero (sign_bit a \<noteq> sign_bit b)
      else round_double (fin_value a / fin_value b))"

fun zero_norm :: "jsnumber \<Rightarrow> jsnumber" where
  "zero_norm NegZero = Fin 0"
| "zero_norm n = n"

text \<open>\<open>==\<close> and \<open><\<close> on numbers: a NaN compares false with
    everything, the zeros are equal.\<close>

definition num_eq :: "jsnumber \<Rightarrow> jsnumber \<Rightarrow> bool" where
  "num_eq a b = (\<not> is_nan a \<and> \<not> is_nan b \<and> zero_norm a = zero_norm b)"

fun num_lt :: "jsnumber \<Rightarrow> jsnumber \<Rightarrow> bool" where
  "num_lt NaN b = False"
| "num_lt a NaN = False"
| "num_lt PosInf b = False"
| "num_lt a NegInf = False"
| "num_lt NegInf b = True"
| "num_lt a PosInf = True"
| "num_lt a b = (fin_value a < fin_value b)"

definition num_le :: "jsnumber \<Rightarrow> jsnumber \<Rightarrow> bool" where
  "num_le a b = (num_lt a b \<or> num_eq a b)"

text \<open>\<open>Number.isInteger\<close> on a number.\<close>

fun isInteger :: "jsnumber \<Rightarrow> bool" where
  "isInteger (Fin r) = (of_int \<lfloor>r\<rfloor> = r)"
| "isInteger NegZero = True"
| "isInteger _ = False"

text \<open>The \<open>length\<close> of a string or an array, as a number.\<close>

definition length_number :: "'a list \<Rightarrow> jsnumber" where
  "length_number xs = Fin (of_nat (length xs))"

subsection \<open>Values\<close>

text \<open>
  The data handed to the validator: JSON values and \<open>undefined\<close>. An array and an
  object carry their identity (a reference), which is what \<open>===\<close> and a
      \<open>Set\<close>
  compare; the validator never writes to them, so no store is needed. An object is the
  list of its own enumerable properties in enumeration order, each key once. One
  \<open>char\<close> of a string stands for one UTF-16 code unit.
\<close>

type_synonym ref = nat

datatype jsval =
    JUndefined
  | JNull
  | JBool bool
  | JNum jsnumber
  | JStr string
  | JArr ref "jsval list"
  | JObj ref "(string \<times> jsval) list"

fun typeof :: "jsval \<Rightarrow> string" where
  "typeof JUndefined = ''undefined''"
| "typeof JNull = ''object''"
| "typeof (JBool b) = ''boolean''"
| "typeof (JNum n) = ''number''"
| "typeof (JStr s) = ''string''"
| "typeof (JArr r xs) = ''object''"
| "typeof (JObj r kvs) = ''object''"

fun isArray :: "jsval \<Rightarrow> bool" where
  "isArray (JArr r xs) = True"
| "isArray _ = False"

fun elements :: "jsval \<Rightarrow> jsval list" where
  "elements (JArr r xs) = xs"
| "elements _ = []"

fun string_of :: "jsval \<Rightarrow> string" where
  "string_of (JStr s) = s"
| "string_of _ = []"

fun number_of :: "jsval \<Rightarrow> jsnumber" where
  "number_of (JNum n) = n"
| "number_of _ = NaN"

text \<open>The negation operator \<open>!\<close>: true on the falsy values.\<close>

fun falsy :: "jsval \<Rightarrow> bool" where
  "falsy JUndefined = True"
| "falsy JNull = True"
| "falsy (JBool b) = (\<not> b)"
| "falsy (JNum n) = (is_nan n \<or> is_zero n)"
| "falsy (JStr s) = (s = [])"
| "falsy _ = False"

text \<open>Strict equality \<open>===\<close>.\<close>

fun strict_eq :: "jsval \<Rightarrow> jsval \<Rightarrow> bool" where
  "strict_eq JUndefined JUndefined = True"
| "strict_eq JNull JNull = True"
| "strict_eq (JBool a) (JBool b) = (a = b)"
| "strict_eq (JNum a) (JNum b) = num_eq a b"
| "strict_eq (JStr a) (JStr b) = (a = b)"
| "strict_eq (JArr r xs) (JArr r' ys) = (r = r')"
| "strict_eq (JObj r kvs) (JObj r' kvs') = (r = r')"
| "strict_eq _ _ = False"

text \<open>SameValueZero, the equality of \<open>Set\<close>: as \<open>===\<close>, but NaN
    equals NaN.\<close>

fun same_value_zero :: "jsval \<Rightarrow> jsval \<Rightarrow> bool" where
  "same_value_zero JUndefined JUndefined = True"
| "same_value_zero JNull JNull = True"
| "same_value_zero (JBool a) (JBool b) = (a = b)"
| "same_value_zero (JNum a) (JNum b) = (zero_norm a = zero_norm b)"
| "same_value_zero (JStr a) (JStr b) = (a = b)"
| "same_value_zero (JArr r xs) (JArr r' ys) = (r = r')"
| "same_value_zero (JObj r kvs) (JObj r' kvs') = (r = r')"
| "same_value_zero _ _ = False"

text \<open>\<open>new Set(data)\<close>: the elements in insertion order, each once;
    \<open>.size\<close> is its length.\<close>

fun set_add :: "jsval list \<Rightarrow> jsval \<Rightarrow> jsval list" where
  "set_add s x = (if list_ex (same_value_zero x) s then s else s @ [x])"

definition new_Set :: "jsval list \<Rightarrow> jsval list" where
  "new_Set xs = foldl set_add [] xs"

text \<open>\<open>Array.prototype.indexOf\<close>: the first index whose element is
    \<open>===\<close> the value, or \<open>-1\<close>.\<close>

fun indexOf_from :: "int \<Rightarrow> jsval list \<Rightarrow> jsval \<Rightarrow> int" where
  "indexOf_from i [] d = - 1"
| "indexOf_from i (v # vs) d = (if strict_eq v d then i else indexOf_from (i + 1) vs d)"

definition indexOf :: "jsval list \<Rightarrow> jsval \<Rightarrow> int" where
  "indexOf vs d = indexOf_from 0 vs d"

subsection \<open>Own properties\<close>

definition digit_char :: "nat \<Rightarrow> char" where
  "digit_char d = ''0123456789'' ! d"

fun string_of_nat :: "nat \<Rightarrow> string" where
  "string_of_nat n =
     (if n < 10 then [digit_char n] else string_of_nat (n div 10) @ [digit_char (n mod 10)])"

declare string_of_nat.simps [simp del]

text \<open>The index properties of an array, as an object has them: keys \<open>"0"\<close>,
    \<open>"1"\<close>, ...\<close>

definition array_entries :: "jsval list \<Rightarrow> (string \<times> jsval) list" where
  "array_entries xs = zip (map string_of_nat [0..<length xs]) xs"

text \<open>\<open>Object.keys\<close>: the own enumerable string keys.\<close>

fun own_keys :: "jsval \<Rightarrow> string list" where
  "own_keys (JObj r kvs) = map fst kvs"
| "own_keys (JArr r xs) = map fst (array_entries xs)"
| "own_keys _ = []"

text \<open>
  The own properties of a value: an array also owns \<open>length\<close>, which is not
      enumerable.
\<close>

fun has_own :: "jsval \<Rightarrow> string \<Rightarrow> bool" where
  "has_own (JObj r kvs) p = (p \<in> set (map fst kvs))"
| "has_own (JArr r xs) p = (p = ''length'' \<or> p \<in> set (map fst (array_entries xs)))"
| "has_own _ p = False"

text \<open>\<open>data[property]\<close>, for an own property (the validator reads no
    other).\<close>

fun get_prop :: "jsval \<Rightarrow> string \<Rightarrow> jsval" where
  "get_prop (JObj r kvs) p = (case map_of kvs p of Some v \<Rightarrow> v | None \<Rightarrow>
      JUndefined)"
| "get_prop (JArr r xs) p =
     (if p = ''length'' then JNum (length_number xs)
      else case map_of (array_entries xs) p of Some v \<Rightarrow> v | None \<Rightarrow>
          JUndefined)"
| "get_prop _ p = JUndefined"

section \<open>Errors and results\<close>

datatype error =
    RequiredNotInProperties
  | MaxItemsNotNonNegativeInteger
  | MinItemsNotNonNegativeInteger
  | MaxLengthNotNonNegativeInteger
  | MinLengthNotNonNegativeInteger
  | MultipleOfNotPositive
  | TypeError_NotAFunction
  | TypeError_Undefined
  | SyntaxError_RegExp
  | DOMException

text \<open>
  Every guard of the validator either throws, returns \<open>false\<close>, or falls through to
      the
  next statement: \<open>Inl e\<close>, \<open>Inr False\<close>, \<open>Inr True\<close>.
      \<open>and_then\<close> is the sequencing of a
  guard and the statements after it.
\<close>

definition and_then :: "error + bool \<Rightarrow> error + bool \<Rightarrow> error + bool" where
  "and_then r k = (case r of Inl e \<Rightarrow> Inl e | Inr b \<Rightarrow> if b then k else Inr
      False)"

text \<open>
  \<open>x.hasOwnProperty(p)\<close> looks the method up on \<open>x\<close>: an own property
      named
  \<open>hasOwnProperty\<close> shadows the inherited method, and its value, a JSON value or a
      schema,
  cannot be called.
\<close>

definition hasOwnProperty :: "jsval \<Rightarrow> string \<Rightarrow> error + bool" where
  "hasOwnProperty d p =
     (if has_own d ''hasOwnProperty'' then Inl TypeError_NotAFunction else Inr (has_own d p))"

definition properties_hasOwnProperty :: "(string \<times> 'a) list \<Rightarrow> string
    \<Rightarrow> error + bool" where
  "properties_hasOwnProperty ps p =
     (if ''hasOwnProperty'' \<in> set (map fst ps) then Inl TypeError_NotAFunction
      else Inr (p \<in> set (map fst ps)))"

section \<open>Schemas\<close>

text \<open>
  A schema is an object. \<open>schema_fields\<close> holds the properties the validator reads of
      it,
  but for \<open>items\<close> and \<open>properties\<close>, which hold schemas and are the two
      other
  arguments of \<open>Schema\<close>. A field is \<open>None\<close> when the property is missing
      or
  \<open>undefined\<close>: the validator tests \<open>schema.hasOwnProperty(k) && schema[k] !==
      undefined\<close>,
  or the truth of \<open>schema[k]\<close>. The field \<open>type_tag\<close> is the property
      \<open>type\<close>: the
  string it holds, or \<open>None\<close> when it is missing or holds no string, which no
      \<open>case\<close> of
  the \<open>switch\<close> matches. \<open>const_value\<close> and \<open>enum_values\<close> are
      \<open>const\<close> and \<open>enum\<close>.
  The interfaces of \<open>./json-schema\<close> give the other fields their types.
\<close>

record schema_fields =
  type_tag :: "string option"
  const_value :: "jsval option"
  enum_values :: "jsval list option"
  maxLength :: "jsnumber option"
  minLength :: "jsnumber option"
  pattern :: "string option"
  multipleOf :: "jsnumber option"
  maximum :: "jsnumber option"
  exclusiveMaximum :: "jsnumber option"
  minimum :: "jsnumber option"
  exclusiveMinimum :: "jsnumber option"
  maxItems :: "jsnumber option"
  minItems :: "jsnumber option"
  uniqueItems :: "bool option"
  required :: "string list option"

datatype schema = Schema schema_fields "schema option" "(string \<times> schema) list option"

text \<open>The schema object with no property at all, from which the others are written.\<close>

definition no_fields :: schema_fields where
  "no_fields =
     \<lparr>type_tag = None, const_value = None, enum_values = None, maxLength = None,
      minLength = None, pattern = None, multipleOf = None, maximum = None,
      exclusiveMaximum = None, minimum = None, exclusiveMinimum = None, maxItems = None,
      minItems = None, uniqueItems = None, required = None\<rparr>"

text \<open>
  \<open>new RegExp(pattern).test(data)\<close>: the regular expression engine is the host's, and
      a
  parameter here. It throws on a pattern that is not a regular expression.
\<close>

type_synonym regexp = "string \<Rightarrow> string \<Rightarrow> error + bool"

section \<open>The validator\<close>

definition validateConst :: "jsval \<Rightarrow> jsval option \<Rightarrow> bool" where
  "validateConst d c =
     (case c of
        None \<Rightarrow> True
      | Some v \<Rightarrow> if falsy v then True else strict_eq d v)"

definition validateEnum :: "jsval \<Rightarrow> jsval list option \<Rightarrow> bool" where
  "validateEnum d e =
     (case e of
        None \<Rightarrow> True
      | Some vs \<Rightarrow> indexOf vs d \<noteq> - 1)"

text \<open>
  The blocks of \<open>maxItems\<close>, \<open>maxLength\<close> (\<open>upper\<close>) and
      \<open>minItems\<close>, \<open>minLength\<close>
  (\<open>lower\<close>): the bound must be a non-negative integer, then the length is compared.
\<close>

definition upper_bound :: "error \<Rightarrow> jsnumber \<Rightarrow> jsnumber option
    \<Rightarrow> error + bool" where
  "upper_bound err len b =
     (case b of
        None \<Rightarrow> Inr True
      | Some m \<Rightarrow>
          if \<not> isInteger m \<or> num_lt m (Fin 0) then Inl err
          else if num_lt m len then Inr False
          else Inr True)"

definition lower_bound :: "error \<Rightarrow> jsnumber \<Rightarrow> jsnumber option
    \<Rightarrow> error + bool" where
  "lower_bound err len b =
     (case b of
        None \<Rightarrow> Inr True
      | Some m \<Rightarrow>
          if \<not> isInteger m \<or> num_lt m (Fin 0) then Inl err
          else if num_lt len m then Inr False
          else Inr True)"

definition pattern_test :: "regexp \<Rightarrow> string \<Rightarrow> string option \<Rightarrow>
    error + bool" where
  "pattern_test rx str p =
     (case p of
        None \<Rightarrow> Inr True
      | Some pat \<Rightarrow> if pat = [] then Inr True else rx pat str)"

definition validateString :: "regexp \<Rightarrow> jsval \<Rightarrow> schema_fields \<Rightarrow>
    error + bool" where
  "validateString rx d k =
     and_then (Inr (\<not> typeof d \<noteq> ''string''))
    (and_then (Inr (validateConst d (const_value k)))
    (and_then (Inr (validateEnum d (enum_values k)))
    (and_then (upper_bound MaxLengthNotNonNegativeInteger (length_number (string_of d)) (maxLength
        k))
    (and_then (lower_bound MinLengthNotNonNegativeInteger (length_number (string_of d)) (minLength
        k))
    (and_then (pattern_test rx (string_of d) (pattern k))
    (Inr True))))))"

definition validateBoolean :: "jsval \<Rightarrow> schema_fields \<Rightarrow> error + bool" where
  "validateBoolean d k =
     and_then (Inr (\<not> typeof d \<noteq> ''boolean''))
    (and_then (Inr (validateConst d (const_value k)))
    (Inr True))"

definition multipleOf_check :: "jsnumber \<Rightarrow> jsnumber option \<Rightarrow> error + bool"
    where
  "multipleOf_check n b =
     (case b of
        None \<Rightarrow> Inr True
      | Some m \<Rightarrow>
          if num_le m (Fin 0) then Inl MultipleOfNotPositive
          else if \<not> isInteger (fdiv n m) then Inr False
          else Inr True)"

text \<open>A range block returns \<open>false\<close> when the bound is present and
    \<open>violated\<close> holds of it.\<close>

definition range_check :: "(jsnumber \<Rightarrow> bool) \<Rightarrow> jsnumber option
    \<Rightarrow> error + bool" where
  "range_check violated b = (case b of None \<Rightarrow> Inr True | Some m \<Rightarrow> Inr
      (\<not> violated m))"

definition validateNumber :: "jsval \<Rightarrow> schema_fields \<Rightarrow> error + bool" where
  "validateNumber d k =
     and_then (Inr (\<not> typeof d \<noteq> ''number''))
    (and_then (Inr (\<not> (type_tag k = Some ''integer'' \<and> \<not> isInteger (number_of d))))
    (and_then (Inr (validateConst d (const_value k)))
    (and_then (Inr (validateEnum d (enum_values k)))
    (and_then (multipleOf_check (number_of d) (multipleOf k))
    (and_then (range_check (\<lambda>m. num_lt m (number_of d)) (maximum k))
    (and_then (range_check (\<lambda>m. num_le m (number_of d)) (exclusiveMaximum k))
    (and_then (range_check (\<lambda>m. num_lt (number_of d) m) (minimum k))
    (and_then (range_check (\<lambda>m. num_le (number_of d) m) (exclusiveMinimum k))
    (Inr True)))))))))"

fun required_loop :: "jsval \<Rightarrow> (string \<times> 'a) list \<Rightarrow> string list
    \<Rightarrow> error + bool" where
  "required_loop d ps [] = Inr True"
| "required_loop d ps (p # rs) =
     (case properties_hasOwnProperty ps p of
        Inl e \<Rightarrow> Inl e
      | Inr declared \<Rightarrow>
          if \<not> declared then Inl RequiredNotInProperties
          else and_then (hasOwnProperty d p) (required_loop d ps rs))"

definition validateRequired :: "jsval \<Rightarrow> (string \<times> 'a) list \<Rightarrow> string
    list option \<Rightarrow> error + bool" where
  "validateRequired d ps req =
     (case req of
        None \<Rightarrow> Inr True
      | Some rs \<Rightarrow> required_loop d ps rs)"

definition uniqueItems_check :: "jsval list \<Rightarrow> bool option \<Rightarrow> error + bool"
    where
  "uniqueItems_check xs u =
     (case u of
        None \<Rightarrow> Inr True
      | Some b \<Rightarrow> if b then Inr (\<not> length xs \<noteq> length (new_Set xs)) else
          Inr True)"

text \<open>
  \<open>validate\<close> returns a boolean, returns \<open>undefined\<close> (\<open>Inr
      None\<close>: the \<open>switch\<close> on
  \<open>schema.type\<close> has no \<open>default\<close>), or throws. The callers test
  \<open>!this.validate(...)\<close>, which holds of \<open>false\<close> and of
      \<open>undefined\<close>. The branches
  of \<open>array\<close> and \<open>object\<close> are the bodies of \<open>validateArray\<close>
      and \<open>validateObject\<close>;
  \<open>items_loop\<close> is the loop of \<open>validateArray\<close> over the elements of the
      data,
  \<open>properties_loop\<close> the loop of \<open>validateObject\<close> over
      \<open>schema.properties\<close> (\<open>all\<close> is
  the whole map, on which \<open>hasOwnProperty\<close> is called). Where \<open>items\<close> is
      missing, \<open>validate\<close> is called on
  \<open>undefined\<close> and throws at \<open>schema.type\<close>; where
      \<open>properties\<close> is missing,
  \<open>Object.keys\<close> throws.
\<close>

definition returns :: "error + bool \<Rightarrow> error + bool option" where
  "returns r = (case r of Inl e \<Rightarrow> Inl e | Inr b \<Rightarrow> Inr (Some b))"

definition not_result :: "error + bool option \<Rightarrow> error + bool" where
  "not_result r = (case r of Inl e \<Rightarrow> Inl e | Inr v \<Rightarrow> Inr (v \<noteq> Some
      True))"

fun validate :: "regexp \<Rightarrow> jsval \<Rightarrow> schema \<Rightarrow> error + bool
    option"
  and items_loop :: "regexp \<Rightarrow> jsval list \<Rightarrow> schema option \<Rightarrow>
      error + bool"
  and properties_loop ::
    "regexp \<Rightarrow> jsval \<Rightarrow> (string \<times> schema) list \<Rightarrow> (string
        \<times> schema) list \<Rightarrow> error + bool"
where
  "validate rx d (Schema k items properties) =
     (if type_tag k = Some ''string'' then returns (validateString rx d k)
      else if type_tag k = Some ''number'' \<or> type_tag k = Some ''integer''
        then returns (validateNumber d k)
      else if type_tag k = Some ''boolean'' then returns (validateBoolean d k)
      else if type_tag k = Some ''array'' then
        returns
         (and_then (Inr (\<not> \<not> isArray d))
         (and_then (upper_bound MaxItemsNotNonNegativeInteger (length_number (elements d))
             (maxItems k))
         (and_then (lower_bound MinItemsNotNonNegativeInteger (length_number (elements d))
             (minItems k))
         (and_then (uniqueItems_check (elements d) (uniqueItems k))
         (items_loop rx (elements d) items)))))
      else if type_tag k = Some ''object'' then
        returns
         (and_then (Inr (\<not> (d = JNull \<or> typeof d \<noteq> ''object'')))
           (case properties of
              None \<Rightarrow> Inl TypeError_Undefined
            | Some ps \<Rightarrow>
                and_then (Inr (\<not> length (map fst ps) < length (own_keys d)))
               (and_then (validateRequired d ps (required k))
               (properties_loop rx d ps ps))))
      else Inr None)"
| "items_loop rx [] items = Inr True"
| "items_loop rx (v # vs) items =
     (case items of
        None \<Rightarrow> Inl TypeError_Undefined
      | Some item_schema \<Rightarrow>
          (case not_result (validate rx v item_schema) of
             Inl e \<Rightarrow> Inl e
           | Inr failed \<Rightarrow> if failed then Inr False else items_loop rx vs items))"
| "properties_loop rx d all [] = Inr True"
| "properties_loop rx d all ((p, sch) # rest) =
     (case properties_hasOwnProperty all p of
        Inl e \<Rightarrow> Inl e
      | Inr in_schema \<Rightarrow>
          if \<not> in_schema then properties_loop rx d all rest
          else
            (case hasOwnProperty d p of
               Inl e \<Rightarrow> Inl e
             | Inr in_data \<Rightarrow>
                 if \<not> in_data then properties_loop rx d all rest
                 else
                   (case not_result (validate rx (get_prop d p) sch) of
                      Inl e \<Rightarrow> Inl e
                    | Inr failed \<Rightarrow>
                        if failed then Inr False else properties_loop rx d all rest)))"

text \<open>An engine for the schemas that carry no pattern: it accepts no pattern at all.\<close>

definition no_regexp :: regexp where
  "no_regexp pat str = Inl SyntaxError_RegExp"

section \<open>Notions used to state properties of the validator\<close>

text \<open>
  What SameValueZero compares of a value: the zeros are one number, and of an array or
  an object only the identity counts.
\<close>

fun svz_key :: "jsval \<Rightarrow> jsval" where
  "svz_key (JNum n) = JNum (zero_norm n)"
| "svz_key (JArr r xs) = JArr r []"
| "svz_key (JObj r kvs) = JObj r []"
| "svz_key v = v"

text \<open>
  Value equality, in the words of the specification of \<open>uniqueItems\<close>: two JSON values
  are equal when their contents are, whatever their identities. \<open>contents\<close> forgets
      the
  identities. The validator does not use it.
\<close>

fun contents :: "jsval \<Rightarrow> jsval" where
  "contents (JArr r xs) = JArr 0 (map contents xs)"
| "contents (JObj r kvs) = JObj 0 (map (map_prod id contents) kvs)"
| "contents v = v"

definition value_equal :: "jsval \<Rightarrow> jsval \<Rightarrow> bool" where
  "value_equal a b = (contents a = contents b)"

section \<open>The backend selector\<close>

text \<open>
  \<open>localDatabaseFactory\<close> reads the host and calls constructors of classes that live
      in
  other files. The host is a parameter: whether the platform is a browser, what the two
  capability tests evaluate to, and whether \<open>indexedDB.open\<close> and the constructors
  return or throw. The handlers the factory installs on the open request run after it has
  returned, and are no part of its result.
\<close>

datatype backend =
    IndexedDBDatabase "string option"
  | LocalStorageDatabase "string option"
  | MockLocalDatabase

record host =
  isPlatformBrowser :: bool
  indexedDB_present :: "error + bool"
  indexedDB_open :: "error + unit"
  new_IndexedDBDatabase :: "error + unit"
  localStorage_present :: "error + bool"
  new_LocalStorageDatabase :: "error + unit"

text \<open>The operator \<open>&&\<close> with the platform test on its left.\<close>

definition browser_and :: "host \<Rightarrow> error + bool \<Rightarrow> error + bool" where
  "browser_and h c = (if isPlatformBrowser h then c else Inr False)"

text \<open>
  The body of the \<open>try\<close>: it returns a backend (\<open>Inr (Some b)\<close>),
      completes without
  returning (\<open>Inr None\<close>), or throws.
\<close>

definition try_body :: "host \<Rightarrow> string option \<Rightarrow> error + backend option"
    where
  "try_body h prefix =
     (case browser_and h (indexedDB_present h) of
        Inl e \<Rightarrow> Inl e
      | Inr idb \<Rightarrow>
          if idb then
            (case indexedDB_open h of
               Inl e \<Rightarrow> Inl e
             | Inr r \<Rightarrow>
                 (case new_IndexedDBDatabase h of
                    Inl e \<Rightarrow> Inl e
                  | Inr u \<Rightarrow> Inr (Some (IndexedDBDatabase prefix))))
          else
            (case browser_and h (localStorage_present h) of
               Inl e \<Rightarrow> Inl e
             | Inr ls \<Rightarrow>
                 if ls then
                   (case new_LocalStorageDatabase h of
                      Inl e \<Rightarrow> Inl e
                    | Inr u \<Rightarrow> Inr (Some (LocalStorageDatabase prefix)))
                 else Inr None))"

text \<open>The \<open>catch\<close> is empty; after it the factory returns the fake
    database.\<close>

definition localDatabaseFactory :: "host \<Rightarrow> string option \<Rightarrow> error +
    backend" where
  "localDatabaseFactory h prefix =
     (case try_body h prefix of
        Inl e \<Rightarrow> Inr MockLocalDatabase
      | Inr None \<Rightarrow> Inr MockLocalDatabase
      | Inr (Some b) \<Rightarrow> Inr b)"

section \<open>Evaluation lemmas\<close>

lemma and_then_simps:
  "and_then (Inl e) k = Inl e"
  "and_then (Inr True) k = k"
  "and_then (Inr False) k = Inr False"
  by (simp_all add: and_then_def)

lemma returns_simps:
  "returns (Inl e) = Inl e"
  "returns (Inr b) = Inr (Some b)"
  by (simp_all add: returns_def)

lemma returns_not_undefined: "returns r \<noteq> Inr None"
  by (cases r) (simp_all add: returns_def)

lemma returns_eq_True: "returns r = Inr (Some True) \<longleftrightarrow> r = Inr True"
  by (cases r) (simp_all add: returns_def)

lemma and_then_eq_True: "and_then r k = Inr True \<longleftrightarrow> r = Inr True \<and> k = Inr
    True"
  by (cases r) (auto simp: and_then_def)

lemmas validate_eval = validateString_def validateNumber_def validateBoolean_def
  validateConst_def validateEnum_def and_then_simps returns_simps not_result_def
  upper_bound_def lower_bound_def pattern_test_def multipleOf_check_def range_check_def
  validateRequired_def uniqueItems_check_def indexOf_def new_Set_def
  hasOwnProperty_def properties_hasOwnProperty_def length_number_def
  num_le_def num_eq_def array_entries_def no_fields_def

subsection \<open>Binary64 arithmetic on numerals\<close>

lemma floor_rat_numeral: "\<lfloor>numeral a / numeral b :: rat\<rfloor> = numeral a div numeral
    b"
  using floor_divide_of_int_eq [of "numeral a" "numeral b", where ?'a = rat] by simp

lemma bit_length_numeral: "bit_length (numeral k) = 1 + bit_length (numeral k div 2)"
  by (subst bit_length.simps) simp

lemma bit_length_0: "bit_length 0 = 0"
  by (subst bit_length.simps) simp

lemma bit_length_1: "bit_length 1 = 1"
  by (subst bit_length.simps) (simp add: bit_length_0)

lemmas double_eval = round_double_def ilog2_def pow2_def round_half_even_def Let_def
  floor_rat_numeral bit_length_numeral bit_length_0 bit_length_1

text \<open>
  The literals \<open>0.3\<close> and \<open>0.1\<close> are the binary64 values
      \<open>5404319552844595 / 2^54\<close> and
  \<open>3602879701896397 / 2^55\<close>. Their exact quotient is \<open>3 - 1 /
      3602879701896397\<close>, which
  rounds to the binary64 next below \<open>3\<close>: \<open>3 - 2^-51\<close>, printed
  \<open>2.9999999999999996\<close>.
\<close>

lemma literal_03: "literal (3 / 10) = Fin (5404319552844595 / 18014398509481984)"
  by (simp add: literal_def double_eval)

lemma literal_01: "literal (1 / 10) = Fin (3602879701896397 / 36028797018963968)"
  by (simp add: literal_def double_eval)

lemma literal_half: "literal (1 / 2) = Fin (1 / 2)"
  by (simp add: literal_def double_eval)

lemma literal_quarter: "literal (1 / 4) = Fin (1 / 4)"
  by (simp add: literal_def double_eval)

lemma fdiv_03_01:
  "fdiv (Fin (5404319552844595 / 18014398509481984)) (Fin (3602879701896397 / 36028797018963968))
     = Fin (6755399441055743 / 2251799813685248)"
  by (simp add: fdiv_def double_eval)

lemma quotient_03_01_below_3: "(6755399441055743 / 2251799813685248 :: rat) = 3 - pow2 (- 51)"
  by (simp add: pow2_def)

lemma fdiv_half_quarter: "fdiv (Fin (1 / 2)) (Fin (1 / 4)) = Fin 2"
  by (simp add: fdiv_def double_eval)

text \<open>
  Known roundings: \<open>1/3\<close> is \<open>6004799503160661 / 2^54\<close>; above
      \<open>2^53\<close> the odd integers
  are ties, which go to the even significand.
\<close>

lemma round_double_third: "round_double (1 / 3) = Fin (6004799503160661 / 18014398509481984)"
  by (simp add: double_eval)

lemma round_double_ties_to_even:
  "round_double 9007199254740993 = Fin 9007199254740992"
  "round_double 9007199254740995 = Fin 9007199254740996"
  by (simp_all add: double_eval)

subsection \<open>The size of a Set\<close>

lemma same_value_zero_key: "same_value_zero a b \<longleftrightarrow> svz_key a = svz_key b"
  by (cases a; cases b) simp_all

lemma list_ex_svz: "list_ex (same_value_zero x) s \<longleftrightarrow> svz_key x \<in> svz_key `
    set s"
  by (auto simp: list_ex_iff same_value_zero_key)

lemma foldl_set_add:
  "distinct (map svz_key acc) \<Longrightarrow>
   distinct (map svz_key (foldl set_add acc xs)) \<and>
   svz_key ` set (foldl set_add acc xs) = svz_key ` (set acc \<union> set xs)"
proof (induction xs arbitrary: acc)
  case Nil
  then show ?case by simp
next
  case (Cons x xs)
  have d: "distinct (map svz_key (set_add acc x))"
    using Cons.prems by (simp add: list_ex_svz)
  have s: "svz_key ` set (set_add acc x) = svz_key ` (set acc \<union> {x})"
    by (auto simp: list_ex_svz)
  from Cons.IH [OF d] s show ?case by (auto simp del: set_add.simps)
qed

lemma length_new_Set: "length (new_Set xs) = card (svz_key ` set xs)"
proof -
  have "distinct (map svz_key (new_Set xs))" and "svz_key ` set (new_Set xs) = svz_key ` set xs"
    using foldl_set_add [of "[]" xs] by (simp_all add: new_Set_def)
  then show ?thesis
    by (metis distinct_card length_map set_map)
qed

lemma new_Set_size_eq: "length xs = length (new_Set xs) \<longleftrightarrow> distinct (map
    svz_key xs)"
  by (metis length_new_Set card_distinct distinct_card length_map set_map)

lemma repeated_not_distinct:
  assumes "i < j" "j < length xs" "same_value_zero (xs ! i) (xs ! j)"
  shows "\<not> distinct (map svz_key xs)"
proof
  assume "distinct (map svz_key xs)"
  moreover have "map svz_key xs ! i = map svz_key xs ! j"
    using assms by (simp add: same_value_zero_key)
  ultimately show False
    using assms by (simp add: distinct_conv_nth)
qed

subsection \<open>The loops of the object validator\<close>

lemma required_loop_undeclared:
  assumes "''hasOwnProperty'' \<notin> set (map fst ps)" "\<not> has_own d ''hasOwnProperty''"
    and "q \<notin> set (map fst ps)"
  shows "set pre \<subseteq> set (map fst ps) \<Longrightarrow> list_all (has_own d) pre
      \<Longrightarrow>
    required_loop d ps (pre @ q # post) = Inl RequiredNotInProperties"
  using assms
  by (induction pre) (simp_all add: properties_hasOwnProperty_def hasOwnProperty_def
      and_then_simps)

lemma required_loop_agree:
  assumes "has_own d ''hasOwnProperty'' = has_own d' ''hasOwnProperty''"
  shows "(\<And>p. p \<in> set rs \<Longrightarrow> has_own d p = has_own d' p) \<Longrightarrow>
    required_loop d ps rs = required_loop d' ps rs"
  using assms by (induction rs) (simp_all add: hasOwnProperty_def split: sum.splits)

lemma properties_loop_agree:
  assumes "has_own d ''hasOwnProperty'' = has_own d' ''hasOwnProperty''"
  shows "(\<And>p. p \<in> set (map fst rest) \<Longrightarrow> has_own d p = has_own d' p)
      \<Longrightarrow>
    (\<And>p. p \<in> set (map fst rest) \<Longrightarrow> get_prop d p = get_prop d' p)
        \<Longrightarrow>
    properties_loop rx d all rest = properties_loop rx d' all rest"
proof (induction rest)
  case Nil
  show ?case by simp
next
  case (Cons a rest)
  obtain p sch where a: "a = (p, sch)" by (cases a)
  have h: "has_own d p = has_own d' p"
    using Cons.prems(1) [of p] a by simp
  have g: "get_prop d p = get_prop d' p"
    using Cons.prems(2) [of p] a by simp
  have r: "properties_loop rx d all rest = properties_loop rx d' all rest"
    using Cons.IH Cons.prems by simp
  show ?case
    using assms by (simp add: a h g r hasOwnProperty_def split: sum.splits)
qed

lemma properties_loop_no_own:
  assumes "''hasOwnProperty'' \<notin> set (map fst all)" and "\<not> has_own d
      ''hasOwnProperty''"
  shows "(\<And>p. p \<in> set (map fst rest) \<Longrightarrow> \<not> has_own d p)
      \<Longrightarrow>
    properties_loop rx d all rest = Inr True"
proof (induction rest)
  case Nil
  show ?case by simp
next
  case (Cons a rest)
  obtain p sch where a: "a = (p, sch)" by (cases a)
  have h: "\<not> has_own d p"
    using Cons.prems [of p] a by simp
  have r: "properties_loop rx d all rest = Inr True"
    using Cons.IH Cons.prems by simp
  show ?case
    using assms by (simp add: a h r hasOwnProperty_def properties_hasOwnProperty_def)
qed

text \<open>The index keys of an array are made of digits: none of them is
    \<open>hasOwnProperty\<close>.\<close>

lemma digit_char_digit: "d < 10 \<Longrightarrow> digit_char d \<in> set ''0123456789''"
  unfolding digit_char_def by (rule nth_mem) simp

lemma string_of_nat_digits: "set (string_of_nat n) \<subseteq> set ''0123456789''"
proof (induction n rule: string_of_nat.induct)
  case (1 n)
  show ?case
  proof (cases "n < 10")
    case True
    then show ?thesis
      using digit_char_digit [of n] by (subst string_of_nat.simps) simp
  next
    case False
    have "n mod 10 < 10" by simp
    then have "digit_char (n mod 10) \<in> set ''0123456789''"
      by (rule digit_char_digit)
    with False "1.IH" show ?thesis
      by (subst string_of_nat.simps) simp
  qed
qed

lemma array_no_hasOwnProperty: "\<not> has_own (JArr r xs) ''hasOwnProperty''"
proof -
  have "''hasOwnProperty'' \<noteq> string_of_nat n" for n
  proof
    assume e: "''hasOwnProperty'' = string_of_nat n"
    have "set ''hasOwnProperty'' \<subseteq> set ''0123456789''"
      using string_of_nat_digits [of n] by (simp only: e)
    then show False by simp
  qed
  then show ?thesis
    by (auto simp: array_entries_def)
qed

lemma array_as_object_has_own:
  "p \<noteq> ''length'' \<Longrightarrow> has_own (JArr r xs) p = has_own (JObj r' (array_entries
      xs)) p"
  by simp

lemma array_as_object_get_prop:
  "p \<noteq> ''length'' \<Longrightarrow> get_prop (JArr r xs) p = get_prop (JObj r'
      (array_entries xs)) p"
  by simp

lemma upper_bound_invalid:
  "\<not> isInteger m \<or> num_lt m (Fin 0) \<Longrightarrow> upper_bound err len (Some m) = Inl
      err"
  by (simp add: upper_bound_def)

lemma lower_bound_invalid:
  "\<not> isInteger m \<or> num_lt m (Fin 0) \<Longrightarrow> lower_bound err len (Some m) = Inl
      err"
  by (simp add: lower_bound_def)

section \<open>The backend selector: claim C1\<close>

text \<open>
  C1, as amended. When the platform is a browser, the \<open>indexedDB\<close> capability is
      present
  and opening the test database throws, the factory returns the fake in-memory database,
  whatever the host says about \<open>localStorage\<close>, and it returns: no error leaves the
  factory. The \<open>localStorage\<close> backend is tried only in the \<open>else\<close> branch
      of the
  capability test, and the single \<open>try\<close> around both branches ends in the fake
      database.
\<close>

theorem probe_throws_selects_mock:
  assumes "isPlatformBrowser h" and "indexedDB_present h = Inr True"
    and "indexedDB_open h = Inl e"
  shows "localDatabaseFactory h prefix = Inr MockLocalDatabase"
  using assms by (simp add: localDatabaseFactory_def try_body_def browser_and_def)

theorem probe_throws_selects_mock_witness:
  "localDatabaseFactory
     \<lparr>isPlatformBrowser = True, indexedDB_present = Inr True, indexedDB_open = Inl
         DOMException,
      new_IndexedDBDatabase = Inr (), localStorage_present = Inr False,
      new_LocalStorageDatabase = Inr ()\<rparr> (Some ''app'') = Inr MockLocalDatabase"
  using probe_throws_selects_mock [of
      "\<lparr>isPlatformBrowser = True, indexedDB_present = Inr True,
        indexedDB_open = Inl DOMException, new_IndexedDBDatabase = Inr (),
        localStorage_present = Inr False, new_LocalStorageDatabase = Inr ()\<rparr>"
      DOMException "Some ''app''"]
  by simp

text \<open>
  C1 as stated fails: with \<open>localStorage\<close> present and usable, a throwing
  \<open>indexedDB.open\<close> still ends in the fake database, not in the
      \<open>localStorage\<close> backend.
\<close>

theorem probe_throws_legacy_available_counterexample:
  "localDatabaseFactory
     \<lparr>isPlatformBrowser = True, indexedDB_present = Inr True, indexedDB_open = Inl
         DOMException,
      new_IndexedDBDatabase = Inr (), localStorage_present = Inr True,
      new_LocalStorageDatabase = Inr ()\<rparr> None = Inr MockLocalDatabase
   \<and> localDatabaseFactory
     \<lparr>isPlatformBrowser = True, indexedDB_present = Inr True, indexedDB_open = Inl
         DOMException,
      new_IndexedDBDatabase = Inr (), localStorage_present = Inr True,
      new_LocalStorageDatabase = Inr ()\<rparr> None \<noteq> Inr (LocalStorageDatabase None)"
  by (simp add: localDatabaseFactory_def try_body_def browser_and_def)

section \<open>The validator: claims C2 to C10\<close>

text \<open>
  C2, as amended. For a number or integer schema carrying \<open>multipleOf\<close>,
      \<open>validate\<close>
  returns \<open>true\<close> only if \<open>multipleOf\<close> is above zero and the binary64
      quotient
  \<open>data / multipleOf\<close>, rounded as the division rounds it, is an integer; and for a
  schema with \<open>multipleOf\<close> alone the result on a number is exactly that test. The
      test is
  on the rounded quotient, not on the exact one.
\<close>

theorem multipleOf_double_quotient:
  "((type_tag k = Some ''number'' \<or> type_tag k = Some ''integer'') \<and> multipleOf k = Some
      m
      \<and> validate rx d (Schema k items properties) = Inr (Some True)
      \<longrightarrow> \<not> num_le m (Fin 0) \<and> isInteger (fdiv (number_of d) m))
   \<and> (\<not> num_le m (Fin 0) \<longrightarrow>
        validate rx (JNum n) (Schema (no_fields\<lparr>type_tag := Some ''number'', multipleOf :=
            Some m\<rparr>) None None)
        = Inr (Some (isInteger (fdiv n m))))"
proof (intro conjI impI)
  assume a: "(type_tag k = Some ''number'' \<or> type_tag k = Some ''integer'')
      \<and> multipleOf k = Some m \<and> validate rx d (Schema k items properties) = Inr (Some
          True)"
  then have t: "type_tag k = Some ''number'' \<or> type_tag k = Some ''integer''"
    and m: "multipleOf k = Some m"
    and v: "validate rx d (Schema k items properties) = Inr (Some True)"
    by simp_all
  from t v have "returns (validateNumber d k) = Inr (Some True)"
    by auto
  then have "multipleOf_check (number_of d) (multipleOf k) = Inr True"
    by (simp add: validateNumber_def returns_eq_True and_then_eq_True)
  with m have "multipleOf_check (number_of d) (Some m) = Inr True"
    by simp
  then show "\<not> num_le m (Fin 0)" and "isInteger (fdiv (number_of d) m)"
    by (simp_all add: multipleOf_check_def split: if_splits)
next
  assume "\<not> num_le m (Fin 0)"
  then show "validate rx (JNum n) (Schema (no_fields\<lparr>type_tag := Some ''number'',
      multipleOf := Some m\<rparr>) None None)
        = Inr (Some (isInteger (fdiv n m)))"
    by (simp add: validateNumber_def validateConst_def validateEnum_def multipleOf_check_def
        range_check_def and_then_simps returns_simps no_fields_def)
qed

theorem multipleOf_double_quotient_witness:
  "validate no_regexp (JNum (literal (1 / 2))) (Schema (no_fields\<lparr>type_tag := Some
      ''number'', multipleOf := Some (literal (1 / 4))\<rparr>) None None) = Inr (Some True)
   \<and> \<not> num_le (literal (1 / 4)) (Fin 0)
   \<and> isInteger (fdiv (literal (1 / 2)) (literal (1 / 4)))"
  using multipleOf_double_quotient [where k = "(no_fields\<lparr>type_tag := Some ''number'',
      multipleOf := Some (literal (1 / 4))\<rparr>)" and m = "literal (1 / 4)"
      and rx = no_regexp and d = "JNum (literal (1 / 2))" and n = "literal (1 / 2)"
      and items = None and properties = None]
  by (simp add: literal_half literal_quarter fdiv_half_quarter num_le_def num_eq_def
      no_fields_def del: validate.simps)

text \<open>
  C2 as stated fails: \<open>validate(0.3, {type: "number", multipleOf: 0.1})\<close> returns
  \<open>false\<close>, because \<open>0.3 / 0.1\<close> is \<open>2.9999999999999996\<close>.
\<close>

theorem multipleOf_tenth_counterexample:
  "validate no_regexp (JNum (literal (3 / 10))) (Schema (no_fields\<lparr>type_tag := Some
      ''number'', multipleOf := Some (literal (1 / 10))\<rparr>) None None) = Inr (Some False)"
  by (simp add: validate_eval literal_03 literal_01 fdiv_03_01 floor_rat_numeral)

text \<open>
  C3 fails on the code: \<open>validateConst\<close> tests the truth of
      \<open>schema.const\<close>, so a
  \<open>const\<close> of \<open>false\<close>, \<open>0\<close> or the empty string is skipped as
      if it were absent.
  \<open>validate(true, {type: "boolean", const: false})\<close>,
  \<open>validate(5, {type: "number", const: 0})\<close> and
  \<open>validate("a", {type: "string", const: ""})\<close> all return \<open>true\<close>.
\<close>

theorem falsy_const_is_skipped:
  "validate no_regexp (JBool True) (Schema (no_fields\<lparr>type_tag := Some ''boolean'',
      const_value := Some (JBool False)\<rparr>) None None) = Inr (Some True)
   \<and> validate no_regexp (JNum (Fin 5)) (Schema (no_fields\<lparr>type_tag := Some ''number'',
       const_value := Some (JNum (Fin 0))\<rparr>) None None) = Inr (Some True)
   \<and> validate no_regexp (JStr ''a'') (Schema (no_fields\<lparr>type_tag := Some ''string'',
       const_value := Some (JStr [])\<rparr>) None None) = Inr (Some True)"
  by (simp add: validate_eval)

text \<open>
  C4, as amended. A malformed constraint raises its error when the validator reaches it,
  and the validator reaches it only after the guards written before it have let the data
  through:
  \<^item> \<open>maxLength\<close> that is not a non-negative integer raises when the data is a
      string that
    passes \<open>const\<close> and \<open>enum\<close>;
  \<^item> \<open>minLength\<close> raises when, beyond that, the \<open>maxLength\<close> block
      has fallen through
    (\<open>maxLength\<close> absent, or well-formed and not exceeded);
  \<^item> \<open>maxItems\<close> raises when the data is an array;
  \<^item> \<open>minItems\<close> raises when the data is an array and the
      \<open>maxItems\<close> block has fallen
    through;
  \<^item> \<open>multipleOf <= 0\<close> raises when the data is a number (a whole one for an
      integer
    schema) that passes \<open>const\<close> and \<open>enum\<close>.
\<close>

theorem malformed_constraint_raises_when_reached:
  "(type_tag k = Some ''string'' \<and> typeof d = ''string'' \<and> validateConst d (const_value
      k)
      \<and> validateEnum d (enum_values k)
      \<and> maxLength k = Some m \<and> (\<not> isInteger m \<or> num_lt m (Fin 0))
      \<longrightarrow> validate rx d (Schema k items properties) = Inl
          MaxLengthNotNonNegativeInteger)
   \<and> (type_tag k = Some ''string'' \<and> typeof d = ''string'' \<and> validateConst d
       (const_value k)
      \<and> validateEnum d (enum_values k)
      \<and> upper_bound MaxLengthNotNonNegativeInteger (length_number (string_of d)) (maxLength
          k)
          = Inr True
      \<and> minLength k = Some m \<and> (\<not> isInteger m \<or> num_lt m (Fin 0))
      \<longrightarrow> validate rx d (Schema k items properties) = Inl
          MinLengthNotNonNegativeInteger)
   \<and> (type_tag k = Some ''array'' \<and> isArray d
      \<and> maxItems k = Some m \<and> (\<not> isInteger m \<or> num_lt m (Fin 0))
      \<longrightarrow> validate rx d (Schema k items properties) = Inl
          MaxItemsNotNonNegativeInteger)
   \<and> (type_tag k = Some ''array'' \<and> isArray d
      \<and> upper_bound MaxItemsNotNonNegativeInteger (length_number (elements d)) (maxItems k)
          = Inr True
      \<and> minItems k = Some m \<and> (\<not> isInteger m \<or> num_lt m (Fin 0))
      \<longrightarrow> validate rx d (Schema k items properties) = Inl
          MinItemsNotNonNegativeInteger)
   \<and> ((type_tag k = Some ''number'' \<or> type_tag k = Some ''integer'') \<and> typeof d =
       ''number''
      \<and> (type_tag k = Some ''integer'' \<longrightarrow> isInteger (number_of d))
      \<and> validateConst d (const_value k) \<and> validateEnum d (enum_values k)
      \<and> multipleOf k = Some m \<and> num_le m (Fin 0)
      \<longrightarrow> validate rx d (Schema k items properties) = Inl MultipleOfNotPositive)"
proof (intro conjI impI)
  assume "type_tag k = Some ''string'' \<and> typeof d = ''string'' \<and> validateConst d
      (const_value k)
      \<and> validateEnum d (enum_values k)
      \<and> maxLength k = Some m \<and> (\<not> isInteger m \<or> num_lt m (Fin 0))"
  then show "validate rx d (Schema k items properties) = Inl MaxLengthNotNonNegativeInteger"
    by (auto simp: validateString_def and_then_simps returns_simps upper_bound_invalid)
next
  assume "type_tag k = Some ''string'' \<and> typeof d = ''string'' \<and> validateConst d
      (const_value k)
      \<and> validateEnum d (enum_values k)
      \<and> upper_bound MaxLengthNotNonNegativeInteger (length_number (string_of d)) (maxLength
          k)
          = Inr True
      \<and> minLength k = Some m \<and> (\<not> isInteger m \<or> num_lt m (Fin 0))"
  then show "validate rx d (Schema k items properties) = Inl MinLengthNotNonNegativeInteger"
    by (auto simp: validateString_def and_then_simps returns_simps lower_bound_invalid)
next
  assume "type_tag k = Some ''array'' \<and> isArray d
      \<and> maxItems k = Some m \<and> (\<not> isInteger m \<or> num_lt m (Fin 0))"
  then show "validate rx d (Schema k items properties) = Inl MaxItemsNotNonNegativeInteger"
    by (auto simp: and_then_simps returns_simps upper_bound_invalid)
next
  assume "type_tag k = Some ''array'' \<and> isArray d
      \<and> upper_bound MaxItemsNotNonNegativeInteger (length_number (elements d)) (maxItems k)
          = Inr True
      \<and> minItems k = Some m \<and> (\<not> isInteger m \<or> num_lt m (Fin 0))"
  then show "validate rx d (Schema k items properties) = Inl MinItemsNotNonNegativeInteger"
    by (auto simp: and_then_simps returns_simps lower_bound_invalid)
next
  assume "(type_tag k = Some ''number'' \<or> type_tag k = Some ''integer'') \<and> typeof d =
      ''number''
      \<and> (type_tag k = Some ''integer'' \<longrightarrow> isInteger (number_of d))
      \<and> validateConst d (const_value k) \<and> validateEnum d (enum_values k)
      \<and> multipleOf k = Some m \<and> num_le m (Fin 0)"
  then show "validate rx d (Schema k items properties) = Inl MultipleOfNotPositive"
    by (auto simp: validateNumber_def and_then_simps returns_simps multipleOf_check_def)
qed

theorem malformed_constraint_raises_when_reached_witness:
  "validate no_regexp (JStr ''ab'') (Schema (no_fields\<lparr>type_tag := Some ''string'',
      maxLength := Some (Fin (- 1))\<rparr>) None None) = Inl MaxLengthNotNonNegativeInteger
   \<and> validate no_regexp (JStr ''ab'') (Schema (no_fields\<lparr>type_tag := Some ''string'',
       maxLength := Some (Fin 5), minLength := Some (Fin (5 / 2))\<rparr>) None None) = Inl
       MinLengthNotNonNegativeInteger
   \<and> validate no_regexp (JArr 0 [JNull]) (Schema (no_fields\<lparr>type_tag := Some
       ''array'', maxItems := Some (Fin (3 / 2))\<rparr>) (Some (Schema no_fields None None))
       None) = Inl MaxItemsNotNonNegativeInteger
   \<and> validate no_regexp (JArr 0 [JNull]) (Schema (no_fields\<lparr>type_tag := Some
       ''array'', maxItems := Some (Fin 4), minItems := Some (Fin (- 2))\<rparr>) (Some (Schema
       no_fields None None)) None) = Inl MinItemsNotNonNegativeInteger
   \<and> validate no_regexp (JNum (Fin 4)) (Schema (no_fields\<lparr>type_tag := Some
       ''integer'', multipleOf := Some (Fin 0)\<rparr>) None None) = Inl MultipleOfNotPositive"
proof -
  note T = malformed_constraint_raises_when_reached
  have a1: "validate no_regexp (JStr ''ab'') (Schema (no_fields\<lparr>type_tag := Some
      ''string'', maxLength := Some (Fin (- 1))\<rparr>) None None) = Inl
      MaxLengthNotNonNegativeInteger"
    using T [where d = "JStr ''ab''" and k = "(no_fields\<lparr>type_tag := Some ''string'',
        maxLength := Some (Fin (- 1))\<rparr>)" and m = "Fin (- 1)" and rx = no_regexp
        and items = None and properties = None]
    by (simp add: validateConst_def validateEnum_def no_fields_def del: validate.simps)
  have a2: "validate no_regexp (JStr ''ab'') (Schema (no_fields\<lparr>type_tag := Some
      ''string'', maxLength := Some (Fin 5), minLength := Some (Fin (5 / 2))\<rparr>) None None) =
      Inl MinLengthNotNonNegativeInteger"
    using T [where d = "JStr ''ab''" and k = "(no_fields\<lparr>type_tag := Some ''string'',
        maxLength := Some (Fin 5), minLength := Some (Fin (5 / 2))\<rparr>)" and m = "Fin (5 / 2)"
        and rx = no_regexp
        and items = None and properties = None]
    by (simp add: validateConst_def validateEnum_def upper_bound_def length_number_def
        floor_rat_numeral no_fields_def del: validate.simps)
  have a3: "validate no_regexp (JArr 0 [JNull]) (Schema (no_fields\<lparr>type_tag := Some
      ''array'', maxItems := Some (Fin (3 / 2))\<rparr>) (Some (Schema no_fields None None)) None)
      = Inl MaxItemsNotNonNegativeInteger"
    using T [where d = "JArr 0 [JNull]" and k = "(no_fields\<lparr>type_tag := Some ''array'',
        maxItems := Some (Fin (3 / 2))\<rparr>)" and m = "Fin (3 / 2)"
        and rx = no_regexp and items = "Some (Schema no_fields None None)" and properties = None]
    by (simp add: floor_rat_numeral no_fields_def del: validate.simps)
  have a4: "validate no_regexp (JArr 0 [JNull]) (Schema (no_fields\<lparr>type_tag := Some
      ''array'', maxItems := Some (Fin 4), minItems := Some (Fin (- 2))\<rparr>) (Some (Schema
      no_fields None None)) None) = Inl MinItemsNotNonNegativeInteger"
    using T [where d = "JArr 0 [JNull]" and k = "(no_fields\<lparr>type_tag := Some ''array'',
        maxItems := Some (Fin 4), minItems := Some (Fin (- 2))\<rparr>)" and m = "Fin (- 2)"
        and rx = no_regexp and items = "Some (Schema no_fields None None)" and properties = None]
    by (simp add: upper_bound_def length_number_def no_fields_def del: validate.simps)
  have a5: "validate no_regexp (JNum (Fin 4)) (Schema (no_fields\<lparr>type_tag := Some
      ''integer'', multipleOf := Some (Fin 0)\<rparr>) None None) = Inl MultipleOfNotPositive"
    using T [where d = "JNum (Fin 4)" and k = "(no_fields\<lparr>type_tag := Some ''integer'',
        multipleOf := Some (Fin 0)\<rparr>)" and m = "Fin 0" and rx = no_regexp
        and items = None and properties = None]
    by (simp add: validateConst_def validateEnum_def num_le_def num_eq_def no_fields_def
        del: validate.simps)
  show ?thesis
    by (intro conjI) (rule a1 a2 a3 a4 a5)+
qed

text \<open>
  C4 as stated fails: a string schema with \<open>maxLength: -1\<close> applied to the number
      \<open>5\<close>
  returns \<open>false\<close>, at the type guard, and raises nothing.
\<close>

theorem malformed_maxLength_unreached_counterexample:
  "validate no_regexp (JNum (Fin 5)) (Schema (no_fields\<lparr>type_tag := Some ''string'',
      maxLength := Some (Fin (- 1))\<rparr>) None None) = Inr (Some False)"
  by (simp add: validate_eval)

text \<open>
  C5, as amended. \<open>validate\<close> raises the error of an undeclared required property when
      it
  reaches that name: the data is a non-null value of type object with no more keys than
  the schema declares properties, the required names before the undeclared one are all
  declared and all present in the data, and neither the property map nor the data has a
  property named \<open>hasOwnProperty\<close> of its own.
\<close>

theorem required_undeclared_raises:
  assumes "type_tag k = Some ''object''" and "required k = Some (pre @ q # post)"
    and "\<not> (d = JNull \<or> typeof d \<noteq> ''object'')"
    and "\<not> length ps < length (own_keys d)"
    and "''hasOwnProperty'' \<notin> set (map fst ps)" and "\<not> has_own d ''hasOwnProperty''"
    and "set pre \<subseteq> set (map fst ps)" and "list_all (has_own d) pre"
    and "q \<notin> set (map fst ps)"
  shows "validate rx d (Schema k items (Some ps)) = Inl RequiredNotInProperties"
  using assms required_loop_undeclared [of ps d q pre post]
  by (simp add: validateRequired_def and_then_simps returns_simps)

theorem required_undeclared_raises_witness:
  "validate no_regexp (JObj 0 [(''length'', JStr ''x'')])
     (Schema (no_fields\<lparr>type_tag := Some ''object'', required := Some [''length'',
         ''missing'']\<rparr>) None (Some [(''length'', (Schema (no_fields\<lparr>type_tag := Some
         ''number''\<rparr>) None None))]))
   = Inl RequiredNotInProperties"
  using required_undeclared_raises [where d = "JObj 0 [(''length'', JStr ''x'')]"
      and k = "(no_fields\<lparr>type_tag := Some ''object'', required := Some [''length'',
          ''missing'']\<rparr>)" and ps = "[(''length'', (Schema (no_fields\<lparr>type_tag :=
          Some ''number''\<rparr>) None None))]" and pre = "[''length'']"
      and q = "''missing''" and post = "[]" and rx = no_regexp and items = None]
  by (simp add: no_fields_def del: validate.simps)

text \<open>
  C5 as stated fails: on the data \<open>42\<close>, which is no object, a schema whose
      \<open>required\<close>
  names the undeclared property \<open>a\<close> returns \<open>false\<close> and raises nothing.
\<close>

theorem required_undeclared_unreached_counterexample:
  "validate no_regexp (JNum (Fin 42)) (Schema (no_fields\<lparr>type_tag := Some ''object'',
      required := Some [''a'']\<rparr>) None (Some [])) = Inr (Some False)"
  by (simp add: validate_eval)

text \<open>
  C6. For a non-null value of type object, \<open>validate\<close> returns \<open>false\<close>
      whenever the
  schema declares fewer properties than the data has keys: a comparison of two counts.
  And the properties of the data that the schema does not declare are not validated: two
  objects with the same keys that agree on the declared ones get the same result.
\<close>

theorem closed_shape_by_count:
  "(type_tag k = Some ''object'' \<and> \<not> (d = JNull \<or> typeof d \<noteq> ''object'')
      \<and> length ps < length (own_keys d)
      \<longrightarrow> validate rx d (Schema k items (Some ps)) = Inr (Some False))
   \<and> (type_tag k = Some ''object'' \<and> map fst kvs = map fst kvs'
      \<and> (\<forall>p \<in> set (map fst ps). map_of kvs p = map_of kvs' p)
      \<longrightarrow> validate rx (JObj r kvs) (Schema k items (Some ps))
          = validate rx (JObj r' kvs') (Schema k items (Some ps)))"
proof (intro conjI impI)
  assume "type_tag k = Some ''object'' \<and> \<not> (d = JNull \<or> typeof d \<noteq>
      ''object'')
      \<and> length ps < length (own_keys d)"
  then show "validate rx d (Schema k items (Some ps)) = Inr (Some False)"
    by (simp add: and_then_simps returns_simps)
next
  assume a: "type_tag k = Some ''object'' \<and> map fst kvs = map fst kvs'
      \<and> (\<forall>p \<in> set (map fst ps). map_of kvs p = map_of kvs' p)"
  then have t: "type_tag k = Some ''object''" and ks: "map fst kvs = map fst kvs'"
    and v: "\<And>p. p \<in> set (map fst ps) \<Longrightarrow> map_of kvs p = map_of kvs' p"
    by auto
  have h: "has_own (JObj r kvs) p = has_own (JObj r' kvs') p" for p
    using ks by simp
  have g: "\<And>p. p \<in> set (map fst ps) \<Longrightarrow> get_prop (JObj r kvs) p = get_prop
      (JObj r' kvs') p"
    using v by simp
  have "required_loop (JObj r kvs) ps rs = required_loop (JObj r' kvs') ps rs" for rs
    by (rule required_loop_agree) (rule h)+
  then have rq: "validateRequired (JObj r kvs) ps (required k)
      = validateRequired (JObj r' kvs') ps (required k)"
    by (simp add: validateRequired_def split: option.splits)
  have lp: "properties_loop rx (JObj r kvs) ps ps = properties_loop rx (JObj r' kvs') ps ps"
    by (rule properties_loop_agree) (rule h, rule h, rule g)
  have n: "length kvs = length kvs'"
    using ks by (metis length_map)
  show "validate rx (JObj r kvs) (Schema k items (Some ps))
      = validate rx (JObj r' kvs') (Schema k items (Some ps))"
    by (simp add: t rq lp n)
qed

theorem closed_shape_by_count_witness:
  "validate no_regexp (JObj 0 [(''a'', JNum (Fin 1)), (''b'', JNum (Fin 2))])
     (Schema (no_fields\<lparr>type_tag := Some ''object''\<rparr>) None (Some [(''a'', (Schema
         (no_fields\<lparr>type_tag := Some ''number''\<rparr>) None None))])) = Inr (Some False)
   \<and> validate no_regexp (JObj 0 [(''a'', JNum (Fin 1)), (''b'', JNum (Fin 2))])
       (Schema (no_fields\<lparr>type_tag := Some ''object''\<rparr>) None (Some [(''a'', (Schema
           (no_fields\<lparr>type_tag := Some ''number''\<rparr>) None None)), (''c'', (Schema
           (no_fields\<lparr>type_tag := Some ''number''\<rparr>) None None))]))
     = validate no_regexp (JObj 1 [(''a'', JNum (Fin 1)), (''b'', JStr ''x'')])
       (Schema (no_fields\<lparr>type_tag := Some ''object''\<rparr>) None (Some [(''a'', (Schema
           (no_fields\<lparr>type_tag := Some ''number''\<rparr>) None None)), (''c'', (Schema
           (no_fields\<lparr>type_tag := Some ''number''\<rparr>) None None))]))
   \<and> validate no_regexp (JObj 1 [(''a'', JNum (Fin 1)), (''b'', JStr ''x'')])
       (Schema (no_fields\<lparr>type_tag := Some ''object''\<rparr>) None (Some [(''a'', (Schema
           (no_fields\<lparr>type_tag := Some ''number''\<rparr>) None None)), (''c'', (Schema
           (no_fields\<lparr>type_tag := Some ''number''\<rparr>) None None))])) = Inr (Some
           True)"
proof -
  note T = closed_shape_by_count
  have a1: "validate no_regexp (JObj 0 [(''a'', JNum (Fin 1)), (''b'', JNum (Fin 2))])
     (Schema (no_fields\<lparr>type_tag := Some ''object''\<rparr>) None (Some [(''a'', (Schema
         (no_fields\<lparr>type_tag := Some ''number''\<rparr>) None None))])) = Inr (Some False)"
    using T [where d = "JObj 0 [(''a'', JNum (Fin 1)), (''b'', JNum (Fin 2))]"
        and k = "(no_fields\<lparr>type_tag := Some ''object''\<rparr>)" and ps = "[(''a'',
            (Schema (no_fields\<lparr>type_tag := Some ''number''\<rparr>) None None))]" and rx =
            no_regexp and items = None,
        THEN conjunct1]
    by (simp add: no_fields_def del: validate.simps)
  have a2: "validate no_regexp (JObj 0 [(''a'', JNum (Fin 1)), (''b'', JNum (Fin 2))])
       (Schema (no_fields\<lparr>type_tag := Some ''object''\<rparr>) None (Some [(''a'', (Schema
           (no_fields\<lparr>type_tag := Some ''number''\<rparr>) None None)), (''c'', (Schema
           (no_fields\<lparr>type_tag := Some ''number''\<rparr>) None None))]))
     = validate no_regexp (JObj 1 [(''a'', JNum (Fin 1)), (''b'', JStr ''x'')])
       (Schema (no_fields\<lparr>type_tag := Some ''object''\<rparr>) None (Some [(''a'', (Schema
           (no_fields\<lparr>type_tag := Some ''number''\<rparr>) None None)), (''c'', (Schema
           (no_fields\<lparr>type_tag := Some ''number''\<rparr>) None None))]))"
    using T [where kvs = "[(''a'', JNum (Fin 1)), (''b'', JNum (Fin 2))]"
        and kvs' = "[(''a'', JNum (Fin 1)), (''b'', JStr ''x'')]" and k =
            "(no_fields\<lparr>type_tag := Some ''object''\<rparr>)"
        and ps = "[(''a'', (Schema (no_fields\<lparr>type_tag := Some ''number''\<rparr>) None
            None)), (''c'', (Schema (no_fields\<lparr>type_tag := Some ''number''\<rparr>) None
            None))]" and rx = no_regexp and items = None
        and r = 0 and r' = 1, THEN conjunct2]
    by (simp add: no_fields_def del: validate.simps)
  have a3: "validate no_regexp (JObj 1 [(''a'', JNum (Fin 1)), (''b'', JStr ''x'')])
       (Schema (no_fields\<lparr>type_tag := Some ''object''\<rparr>) None (Some [(''a'', (Schema
           (no_fields\<lparr>type_tag := Some ''number''\<rparr>) None None)), (''c'', (Schema
           (no_fields\<lparr>type_tag := Some ''number''\<rparr>) None None))])) = Inr (Some
           True)"
    by (simp add: validate_eval)
  show ?thesis
    by (intro conjI) (rule a1 a2 a3)+
qed

text \<open>
  C7, as amended. For an array schema with \<open>uniqueItems: true\<close>, if two elements of
      the
  data array at different positions are the same value for a \<open>Set\<close> (SameValueZero:
  numbers, strings and booleans by value, arrays and objects by identity, not by
  contents), \<open>validate\<close> does not return \<open>true\<close>: it returns
      \<open>false\<close>, unless a malformed
  \<open>maxItems\<close> or \<open>minItems\<close> raises first. \<open>validate([1,1],
      ...)\<close> returns \<open>false\<close> and
  \<open>validate([1,2], ...)\<close> returns \<open>true\<close>.
\<close>

theorem uniqueItems_same_value_zero:
  assumes "type_tag k = Some ''array''" and "uniqueItems k = Some True"
    and "i < j" and "j < length xs" and "same_value_zero (xs ! i) (xs ! j)"
  shows "validate rx (JArr r xs) (Schema k items properties) =
    returns
     (and_then (upper_bound MaxItemsNotNonNegativeInteger (length_number xs) (maxItems k))
     (and_then (lower_bound MinItemsNotNonNegativeInteger (length_number xs) (minItems k))
     (Inr False)))"
proof -
  have "length xs \<noteq> length (new_Set xs)"
    using repeated_not_distinct [OF assms(3-5)] by (simp add: new_Set_size_eq)
  then have "uniqueItems_check xs (Some True) = Inr False"
    by (simp add: uniqueItems_check_def)
  then show ?thesis
    using assms(1,2) by (simp add: and_then_simps)
qed

theorem uniqueItems_same_value_zero_witness:
  "validate no_regexp (JArr 0 [JNum (Fin 1), JNum (Fin 1)])
     (Schema (no_fields\<lparr>type_tag := Some ''array'', uniqueItems := Some True\<rparr>) (Some
         (Schema (no_fields\<lparr>type_tag := Some ''integer''\<rparr>) None None)) None) = Inr
         (Some False)
   \<and> validate no_regexp (JArr 0 [JNum (Fin 1), JNum (Fin 2)])
     (Schema (no_fields\<lparr>type_tag := Some ''array'', uniqueItems := Some True\<rparr>) (Some
         (Schema (no_fields\<lparr>type_tag := Some ''integer''\<rparr>) None None)) None) = Inr
         (Some True)"
proof
  have "same_value_zero ([JNum (Fin 1), JNum (Fin 1)] ! 0) ([JNum (Fin 1), JNum (Fin 1)] ! 1)"
    by simp
  from uniqueItems_same_value_zero [where i = 0 and j = 1
      and xs = "[JNum (Fin 1), JNum (Fin 1)]" and rx = no_regexp and r = 0
      and k = "(no_fields\<lparr>type_tag := Some ''array'', uniqueItems := Some True\<rparr>)"
          and items = "Some (Schema (no_fields\<lparr>type_tag := Some ''integer''\<rparr>) None
          None)" and properties = None, OF _ _ _ _ this]
  show "validate no_regexp (JArr 0 [JNum (Fin 1), JNum (Fin 1)])
     (Schema (no_fields\<lparr>type_tag := Some ''array'', uniqueItems := Some True\<rparr>) (Some
         (Schema (no_fields\<lparr>type_tag := Some ''integer''\<rparr>) None None)) None) = Inr
         (Some False)"
    by (simp add: upper_bound_def lower_bound_def and_then_simps returns_simps no_fields_def
        del: validate.simps)
next
  show "validate no_regexp (JArr 0 [JNum (Fin 1), JNum (Fin 2)])
     (Schema (no_fields\<lparr>type_tag := Some ''array'', uniqueItems := Some True\<rparr>) (Some
         (Schema (no_fields\<lparr>type_tag := Some ''integer''\<rparr>) None None)) None) = Inr
         (Some True)"
    by (simp add: validate_eval)
qed

text \<open>
  C7 as stated fails for value equality: the two elements of \<open>[[1], [1]]\<close> are equal
  values, and two arrays; with \<open>uniqueItems: true\<close> and items of integer arrays,
  \<open>validate\<close> returns \<open>true\<close>.
\<close>

theorem uniqueItems_equal_contents_counterexample:
  "value_equal (JArr 1 [JNum (Fin 1)]) (JArr 2 [JNum (Fin 1)])
   \<and> validate no_regexp (JArr 0 [JArr 1 [JNum (Fin 1)], JArr 2 [JNum (Fin 1)]])
       (Schema (no_fields\<lparr>type_tag := Some ''array'', uniqueItems := Some True\<rparr>)
           (Some (Schema (no_fields\<lparr>type_tag := Some ''array''\<rparr>) (Some (Schema
           (no_fields\<lparr>type_tag := Some ''integer''\<rparr>) None None)) None)) None) = Inr
           (Some True)"
  by (simp add: value_equal_def validate_eval)

text \<open>
  C8. \<open>validate\<close> dispatches on \<open>schema.type\<close> alone, and the
      \<open>switch\<close> has no default: on
  every schema object whose \<open>type\<close> is none of the six tags, whatever its other
  properties, and on every data value, it returns \<open>undefined\<close>: no boolean, and no
      error.
  And only there: with one of the six tags it returns a boolean or throws.
\<close>

theorem unrecognized_type_returns_undefined:
  "validate rx d (Schema k items properties) = Inr None \<longleftrightarrow>
     type_tag k \<noteq> Some ''string'' \<and> type_tag k \<noteq> Some ''number''
     \<and> type_tag k \<noteq> Some ''integer'' \<and> type_tag k \<noteq> Some ''boolean''
     \<and> type_tag k \<noteq> Some ''array'' \<and> type_tag k \<noteq> Some ''object''"
  by (simp add: returns_not_undefined)

theorem unrecognized_type_returns_undefined_witness:
  "validate no_regexp (JStr ''abcdef'') (Schema (no_fields\<lparr>type_tag := Some ''null'',
      maxLength := Some (Fin 3)\<rparr>) None None) = Inr None
   \<and> validate no_regexp (JNum (Fin 1)) (Schema (no_fields\<lparr>maxLength := Some (Fin (-
       1))\<rparr>) None None)
       = Inr None
   \<and> validate no_regexp (JNum (Fin 1)) (Schema (no_fields\<lparr>type_tag := Some
       ''string''\<rparr>) None None)
       \<noteq> Inr None"
proof -
  note T = unrecognized_type_returns_undefined
  have a1: "validate no_regexp (JStr ''abcdef'') (Schema (no_fields\<lparr>type_tag := Some
      ''null'', maxLength := Some (Fin 3)\<rparr>) None None) = Inr None"
    using T [where k = "(no_fields\<lparr>type_tag := Some ''null'', maxLength := Some (Fin
        3)\<rparr>)" and rx = no_regexp and d = "JStr ''abcdef''" and items = None
        and properties = None]
    by (simp add: no_fields_def del: validate.simps)
  have a2: "validate no_regexp (JNum (Fin 1))
      (Schema (no_fields\<lparr>maxLength := Some (Fin (- 1))\<rparr>) None None) = Inr None"
    using T [where k = "no_fields\<lparr>maxLength := Some (Fin (- 1))\<rparr>" and rx = no_regexp
        and d = "JNum (Fin 1)" and items = None and properties = None]
    by (simp add: no_fields_def del: validate.simps)
  have a3: "validate no_regexp (JNum (Fin 1))
      (Schema (no_fields\<lparr>type_tag := Some ''string''\<rparr>) None None) \<noteq> Inr None"
    using T [where k = "no_fields\<lparr>type_tag := Some ''string''\<rparr>" and rx = no_regexp
        and d = "JNum (Fin 1)" and items = None and properties = None]
    by (simp add: no_fields_def del: validate.simps)
  show ?thesis
    using a1 a2 a3 by (simp del: validate.simps)
qed

text \<open>
  C10. The guard of the object validator rejects only \<open>null\<close> and the values that are
      not
  of type object, so it lets every array through:
  \<^item> against an object schema that does not mention \<open>length\<close> (among its
      properties or
    its required names), an array validates exactly as the object of its index properties
    \<open>"0"\<close>, \<open>"1"\<close>, ... does;
  \<^item> an array of any length validates against an object schema with no required list
    that declares at least as many properties as the array has elements, none of them a
    property of the array;
  \<^item> \<open>validate([], {type: "object", properties: {}})\<close> returns
      \<open>true\<close>.
\<close>

theorem array_passes_object_guard:
  "(type_tag k = Some ''object'' \<and> ''length'' \<notin> set (map fst ps)
      \<and> ''length'' \<notin> set (case required k of None \<Rightarrow> [] | Some rs
          \<Rightarrow> rs)
      \<longrightarrow> validate rx (JArr r xs) (Schema k items (Some ps))
          = validate rx (JObj r' (array_entries xs)) (Schema k items (Some ps)))
   \<and> (type_tag k = Some ''object'' \<and> required k = None \<and> length xs \<le> length ps
      \<and> ''hasOwnProperty'' \<notin> set (map fst ps)
      \<and> (\<forall>p \<in> set (map fst ps). \<not> has_own (JArr r xs) p)
      \<longrightarrow> validate rx (JArr r xs) (Schema k items (Some ps)) = Inr (Some True))
   \<and> validate rx (JArr r []) (Schema (no_fields\<lparr>type_tag := Some ''object''\<rparr>)
       None (Some [])) = Inr (Some True)"
proof (intro conjI impI)
  assume a: "type_tag k = Some ''object'' \<and> ''length'' \<notin> set (map fst ps)
      \<and> ''length'' \<notin> set (case required k of None \<Rightarrow> [] | Some rs
          \<Rightarrow> rs)"
  then have t: "type_tag k = Some ''object''" and lp: "''length'' \<notin> set (map fst ps)"
    and lr: "''length'' \<notin> set (case required k of None \<Rightarrow> [] | Some rs
        \<Rightarrow> rs)"
    by simp_all
  let ?a = "JArr r xs" and ?o = "JObj r' (array_entries xs)"
  have h0: "has_own ?a ''hasOwnProperty'' = has_own ?o ''hasOwnProperty''"
    by (rule array_as_object_has_own) simp
  have hp: "\<And>p. p \<in> set (map fst ps) \<Longrightarrow> has_own ?a p = has_own ?o p"
    using lp by (intro array_as_object_has_own) force
  have gp: "\<And>p. p \<in> set (map fst ps) \<Longrightarrow> get_prop ?a p = get_prop ?o p"
    using lp by (intro array_as_object_get_prop) force
  have rq: "validateRequired ?a ps (required k) = validateRequired ?o ps (required k)"
  proof (cases "required k")
    case None
    then show ?thesis by (simp add: validateRequired_def)
  next
    case (Some rs)
    with lr have "\<And>p. p \<in> set rs \<Longrightarrow> has_own ?a p = has_own ?o p"
      by (intro array_as_object_has_own) auto
    with h0 have "required_loop ?a ps rs = required_loop ?o ps rs"
      by (rule required_loop_agree)
    with Some show ?thesis by (simp add: validateRequired_def)
  qed
  have lo: "properties_loop rx ?a ps ps = properties_loop rx ?o ps ps"
    using h0 hp gp by (rule properties_loop_agree)
  show "validate rx ?a (Schema k items (Some ps)) = validate rx ?o (Schema k items (Some ps))"
    by (simp add: t rq lo)
next
  assume a: "type_tag k = Some ''object'' \<and> required k = None \<and> length xs \<le> length
      ps
      \<and> ''hasOwnProperty'' \<notin> set (map fst ps)
      \<and> (\<forall>p \<in> set (map fst ps). \<not> has_own (JArr r xs) p)"
  then have t: "type_tag k = Some ''object''" and rn: "required k = None"
    and n: "length xs \<le> length ps" and s: "''hasOwnProperty'' \<notin> set (map fst ps)"
    and no: "\<And>p. p \<in> set (map fst ps) \<Longrightarrow> \<not> has_own (JArr r xs) p"
    by auto
  have lo: "properties_loop rx (JArr r xs) ps ps = Inr True"
    using s array_no_hasOwnProperty no by (rule properties_loop_no_own)
  have c: "length (own_keys (JArr r xs)) = length xs"
    by (simp add: array_entries_def)
  show "validate rx (JArr r xs) (Schema k items (Some ps)) = Inr (Some True)"
    using n by (simp add: t rn lo c validateRequired_def and_then_simps returns_simps
        del: own_keys.simps)
next
  show "validate rx (JArr r []) (Schema (no_fields\<lparr>type_tag := Some ''object''\<rparr>)
      None (Some [])) = Inr (Some True)"
    by (simp add: validate_eval)
qed

theorem array_passes_object_guard_witness:
  "validate no_regexp (JArr 0 [JStr ''a'', JStr ''b''])
       (Schema (no_fields\<lparr>type_tag := Some ''object''\<rparr>) None (Some [(''0'', (Schema
           (no_fields\<lparr>type_tag := Some ''string''\<rparr>) None None)), (''1'', (Schema
           (no_fields\<lparr>type_tag := Some ''string''\<rparr>) None None))]))
     = validate no_regexp (JObj 1 [(''0'', JStr ''a''), (''1'', JStr ''b'')])
       (Schema (no_fields\<lparr>type_tag := Some ''object''\<rparr>) None (Some [(''0'', (Schema
           (no_fields\<lparr>type_tag := Some ''string''\<rparr>) None None)), (''1'', (Schema
           (no_fields\<lparr>type_tag := Some ''string''\<rparr>) None None))]))
   \<and> validate no_regexp (JArr 0 [JStr ''a'', JStr ''b''])
       (Schema (no_fields\<lparr>type_tag := Some ''object''\<rparr>) None (Some [(''0'', (Schema
           (no_fields\<lparr>type_tag := Some ''string''\<rparr>) None None)), (''1'', (Schema
           (no_fields\<lparr>type_tag := Some ''string''\<rparr>) None None))])) = Inr (Some True)
   \<and> validate no_regexp (JArr 0 [JNum (Fin 1), JNum (Fin 2)])
       (Schema (no_fields\<lparr>type_tag := Some ''object''\<rparr>) None (Some [(''x'', (Schema
           (no_fields\<lparr>type_tag := Some ''string''\<rparr>) None None)), (''y'', (Schema
           (no_fields\<lparr>type_tag := Some ''string''\<rparr>) None None))])) = Inr (Some
           True)"
proof -
  note T = array_passes_object_guard
  have e: "array_entries [JStr ''a'', JStr ''b''] = [(''0'', JStr ''a''), (''1'', JStr ''b'')]"
    by (simp add: array_entries_def upt_rec string_of_nat.simps digit_char_def)
  have e2: "map fst (array_entries [JNum (Fin 1), JNum (Fin 2)]) = [''0'', ''1'']"
    by (simp add: array_entries_def upt_rec string_of_nat.simps digit_char_def)
  have a1: "validate no_regexp (JArr 0 [JStr ''a'', JStr ''b''])
       (Schema (no_fields\<lparr>type_tag := Some ''object''\<rparr>) None (Some [(''0'', (Schema
           (no_fields\<lparr>type_tag := Some ''string''\<rparr>) None None)), (''1'', (Schema
           (no_fields\<lparr>type_tag := Some ''string''\<rparr>) None None))]))
     = validate no_regexp (JObj 1 [(''0'', JStr ''a''), (''1'', JStr ''b'')])
       (Schema (no_fields\<lparr>type_tag := Some ''object''\<rparr>) None (Some [(''0'', (Schema
           (no_fields\<lparr>type_tag := Some ''string''\<rparr>) None None)), (''1'', (Schema
           (no_fields\<lparr>type_tag := Some ''string''\<rparr>) None None))]))"
    using T [where k = "(no_fields\<lparr>type_tag := Some ''object''\<rparr>)" and ps = "[(''0'',
        (Schema (no_fields\<lparr>type_tag := Some ''string''\<rparr>) None None)), (''1'',
        (Schema (no_fields\<lparr>type_tag := Some ''string''\<rparr>) None None))]"
        and rx = no_regexp and r = 0 and r' = 1 and xs = "[JStr ''a'', JStr ''b'']"
        and items = None, THEN conjunct1]
    by (simp add: e no_fields_def del: validate.simps)
  have a2: "validate no_regexp (JObj 1 [(''0'', JStr ''a''), (''1'', JStr ''b'')])
       (Schema (no_fields\<lparr>type_tag := Some ''object''\<rparr>) None (Some [(''0'', (Schema
           (no_fields\<lparr>type_tag := Some ''string''\<rparr>) None None)), (''1'', (Schema
           (no_fields\<lparr>type_tag := Some ''string''\<rparr>) None None))])) = Inr (Some
           True)"
    by (simp add: validate_eval)
  have a3: "validate no_regexp (JArr 0 [JNum (Fin 1), JNum (Fin 2)])
       (Schema (no_fields\<lparr>type_tag := Some ''object''\<rparr>) None (Some [(''x'', (Schema
           (no_fields\<lparr>type_tag := Some ''string''\<rparr>) None None)), (''y'', (Schema
           (no_fields\<lparr>type_tag := Some ''string''\<rparr>) None None))])) = Inr (Some
           True)"
    using T [where k = "(no_fields\<lparr>type_tag := Some ''object''\<rparr>)" and ps = "[(''x'',
        (Schema (no_fields\<lparr>type_tag := Some ''string''\<rparr>) None None)), (''y'',
        (Schema (no_fields\<lparr>type_tag := Some ''string''\<rparr>) None None))]"
        and rx = no_regexp and r = 0 and xs = "[JNum (Fin 1), JNum (Fin 2)]"
        and items = None, THEN conjunct2, THEN conjunct1]
    by (simp add: e2 no_fields_def del: validate.simps)
  show ?thesis
    using a1 a2 a3 by (simp del: validate.simps)
qed

end
